theory Spec2Isabelle
  imports Complex_Main
begin

section \<open>Store, environment and failures\<close>

text \<open>
  The backend keeps all of its state in SQL tables reached through \<open>db.get\<close> and
  \<open>db.query\<close> (config/database.js). The tables are modelled as lists of rows, a row as
  a record of the columns the modelled code reads or writes. Timestamps are integers
  (milliseconds), the current time is a parameter \<open>now\<close> of every operation.
  Every awaited store call may reject; which calls reject is an oracle
  \<open>fails :: db_op \<Rightarrow> bool\<close>, one constructor of \<open>db_op\<close> per call site.
\<close>

datatype db_op =
    GetRotationState | InsertRotationState | SelectActiveAliases
  | UpdateRotationState | TouchAlias
  | SelectByReference | SelectByEmailAmount | SelectByAmountRecent | CountByAmountRecent
  | SelectByAmountOnly
  | UpdateOrderPaid | InsertAutoMatched | InsertNeedsReview | InsertUnmatched
  | CancelExpired
  | FindOrder | InsertOrderNotFound | UpdateOrderConfirmed | InsertPaymentConfirmed
  | InsertOrder | InsertOrderCreated

datatype error = DbError db_op | TypeError

record email_alias =
  alias_row_id :: int
  alias_email :: string
  bank_name :: "string option"
  bank_slug :: "string option"
  active :: bool
  last_used_at :: "int option"

record rotation_row =
  current_alias_id :: "int option"
  order_count :: "int option"

record env =
  DEFAULT_PAYMENT_EMAIL :: "string option"
  RECIPIENT_NAME :: "string option"
  EMAIL_ENABLED :: "string option"
  WEBHOOK_SECRET :: "string option"

datatype order_status =
  Pending | AwaitingPayment | Processing | Paid | Completed | Cancelled | Refunded

record order_row =
  order_id :: int
  reference_number :: string
  customer_email :: "string option"
  customer_name :: "string option"
  amount_cents :: int
  status :: order_status
  payment_email :: "string option"
  created_at :: int
  updated_at :: int
  paid_at :: "int option"

text \<open>What the parser hands to the matching engine (the object built by
  \<open>parseInteracEmail\<close>). \<open>amount\<close> is a JavaScript number; amounts are decimal
  numerals with at most two fraction digits, for which the double arithmetic of the
  source gives the exact result, so they are modelled as rationals.\<close>

record payment_data =
  amount :: "rat option"
  amountCents :: "int option"
  senderEmail :: "string option"
  senderName :: "string option"
  referenceCode :: "string option"
  transactionId :: "string option"
  isInterac :: bool

text \<open>The \<open>event_data\<close> column holds the JSON of one of these objects.\<close>

datatype event_data =
    MatchData int string payment_data
  | ConfirmedData "string option" "string option" "string option"
  | CreatedData string

record payment_event =
  event_order_id :: "int option"
  event_type :: string
  event_payload :: event_data

record unmatched_payment =
  unmatched_amount_cents :: "int option"
  unmatched_sender_email :: "string option"
  unmatched_sender_name :: "string option"
  unmatched_reference_code :: "string option"
  reason :: string

text \<open>Calls of \<open>sendAdminAlert\<close> and \<open>sendPaymentConfirmation\<close> are logged in the
  store next to the tables (whether a mail leaves depends on the SMTP settings, and
  neither function throws: \<open>sendEmail\<close> catches).\<close>

record admin_alert =
  alert_type :: string
  alert_title :: string

record confirmation_mail =
  mail_to :: "string option"
  mail_order_number :: string

record store =
  rotation_state :: "rotation_row option"
  email_aliases :: "email_alias list"
  orders :: "order_row list"
  payment_events :: "payment_event list"
  unmatched_payments :: "unmatched_payment list"
  admin_alerts :: "admin_alert list"
  confirmation_mails :: "confirmation_mail list"

section \<open>Alias rotation (services/rotation.js)\<close>


record assignment =
  email :: "string option"
  name :: "string option"
  alias_id :: "int option"
  assigned_bank_slug :: "string option"
  orders_until_rotation :: "int option"

definition ORDERS_PER_ROTATION :: int where
  "ORDERS_PER_ROTATION = 20"

text \<open>JavaScript truthiness of a nullable string, and \<open>a || b\<close> on nullable strings.\<close>

definition truthy_str :: "string option \<Rightarrow> bool" where
  "truthy_str x = (case x of None \<Rightarrow> False | Some s \<Rightarrow> s \<noteq> [])"

definition or_str :: "string option \<Rightarrow> string option \<Rightarrow> string option" where
  "or_str a b = (if truthy_str a then a else b)"

text \<open>\<open>Array.prototype.findIndex\<close>: the first index whose element satisfies the
  predicate, \<open>-1\<close> when there is none.\<close>

fun findIndex :: "('a \<Rightarrow> bool) \<Rightarrow> 'a list \<Rightarrow> int" where
  "findIndex P [] = - 1"
| "findIndex P (x # xs) =
     (if P x then 0 else (let i = findIndex P xs in if i < 0 then - 1 else i + 1))"

text \<open>\<open>xs[i]\<close>: \<open>undefined\<close> outside the array.\<close>

definition at_index :: "'a list \<Rightarrow> int \<Rightarrow> 'a option" where
  "at_index xs i = (if 0 \<le> i \<and> i < int (length xs) then Some (xs ! nat i) else None)"

text \<open>\<open>SELECT * FROM email_aliases WHERE active = 1 ORDER BY id ASC\<close>.\<close>

definition active_ring :: "store \<Rightarrow> email_alias list" where
  "active_ring s = sort_key alias_row_id (filter active (email_aliases s))"

text \<open>The fallback object returned when no alias is active and from the \<open>catch\<close> block.\<close>

definition default_assignment :: "env \<Rightarrow> assignment" where
  "default_assignment e =
     \<lparr> email = DEFAULT_PAYMENT_EMAIL e, name = RECIPIENT_NAME e, alias_id = None,
       assigned_bank_slug = None, orders_until_rotation = None \<rparr>"

text \<open>Lines 18-29: read the singleton row, inserting \<open>(1, NULL, 0)\<close> when it is missing.\<close>

definition load_state ::
  "(db_op \<Rightarrow> bool) \<Rightarrow> store \<Rightarrow> (error + rotation_row) \<times> store" where
  "load_state fails s =
     (if fails GetRotationState then (Inl (DbError GetRotationState), s)
      else (case rotation_state s of
              Some st \<Rightarrow> (Inr st, s)
            | None \<Rightarrow>
                (if fails InsertRotationState then (Inl (DbError InsertRotationState), s)
                 else (Inr \<lparr> current_alias_id = None, order_count = Some 0 \<rparr>,
                       s\<lparr> rotation_state :=
                            Some \<lparr> current_alias_id = None, order_count = Some 0 \<rparr> \<rparr>))))"

text \<open>Lines 47-53: \<open>state.order_count || 0\<close>, and the first alias when the stored id is
  falsy (\<open>null\<close> or \<open>0\<close>). The ring is not empty here.\<close>

definition initial_count :: "rotation_row \<Rightarrow> int" where
  "initial_count st = (case order_count st of None \<Rightarrow> 0 | Some n \<Rightarrow> n)"

definition initial_alias_id :: "rotation_row \<Rightarrow> email_alias \<Rightarrow> int" where
  "initial_alias_id st a0 =
     (case current_alias_id st of
        None \<Rightarrow> alias_row_id a0
      | Some c \<Rightarrow> if c = 0 then alias_row_id a0 else c)"

text \<open>Lines 56-66: the threshold check. \<open>aliases[nextIndex].id\<close> on \<open>undefined\<close> would
  be a TypeError.\<close>

definition rotate_if_due :: "email_alias list \<Rightarrow> int \<times> int \<Rightarrow> error + (int \<times> int)" where
  "rotate_if_due aliases st =
     (let currentAliasId = fst st; orderCount = snd st
      in if orderCount \<ge> ORDERS_PER_ROTATION then
           (let currentIndex = findIndex (\<lambda>a. alias_row_id a = currentAliasId) aliases;
                nextIndex = (currentIndex + 1) mod int (length aliases)
            in (case at_index aliases nextIndex of
                  None \<Rightarrow> Inl TypeError
                | Some a \<Rightarrow> Inr (alias_row_id a, 0)))
         else Inr (currentAliasId, orderCount))"

text \<open>Lines 69-77: look the alias up; when it is not in the ring take the first one and
  reset the counter.\<close>

definition resolve_alias :: "email_alias list \<Rightarrow> email_alias \<Rightarrow> int \<times> int \<Rightarrow> email_alias \<times> int \<times> int" where
  "resolve_alias aliases a0 st =
     (let currentAliasId = fst st; orderCount = snd st
      in (case find (\<lambda>a. alias_row_id a = currentAliasId) aliases of
            None \<Rightarrow> (a0, alias_row_id a0, 0)
          | Some a \<Rightarrow> (a, currentAliasId, orderCount)))"

text \<open>Lines 83-94: the two writes. The \<open>UPDATE ... WHERE id = 1\<close> changes the row when
  it exists; the second stamps every alias row with the chosen id.\<close>

definition write_state :: "int \<Rightarrow> int \<Rightarrow> store \<Rightarrow> store" where
  "write_state currentAliasId orderCount s =
     (case rotation_state s of
        None \<Rightarrow> s
      | Some st \<Rightarrow>
          s\<lparr> rotation_state :=
               Some (st\<lparr> current_alias_id := Some currentAliasId,
                         order_count := Some orderCount \<rparr>) \<rparr>)"

definition touch_alias :: "int \<Rightarrow> int \<Rightarrow> store \<Rightarrow> store" where
  "touch_alias now currentAliasId s =
     s\<lparr> email_aliases :=
          map (\<lambda>a. if alias_row_id a = currentAliasId then a\<lparr> last_used_at := Some now \<rparr> else a)
              (email_aliases s) \<rparr>"

text \<open>Lines 98-104: the assignment returned for the chosen alias.\<close>

definition make_assignment :: "env \<Rightarrow> email_alias \<Rightarrow> int \<Rightarrow> assignment" where
  "make_assignment e currentAlias orderCount =
     \<lparr> email = Some (alias_email currentAlias),
       name = or_str (bank_name currentAlias) (RECIPIENT_NAME e),
       alias_id = Some (alias_row_id currentAlias),
       assigned_bank_slug = bank_slug currentAlias,
       orders_until_rotation = Some (ORDERS_PER_ROTATION - orderCount) \<rparr>"

text \<open>Lines 79-104: increment, persist, stamp, return. Either write may reject; a
  rejected \<open>TouchAlias\<close> comes after the rotation row has been written.\<close>

definition persist_selection ::
  "(db_op \<Rightarrow> bool) \<Rightarrow> env \<Rightarrow> int \<Rightarrow> email_alias \<times> int \<times> int \<Rightarrow> store
     \<Rightarrow> (error + assignment) \<times> store" where
  "persist_selection fails e now sel s =
     (let currentAlias = fst sel; currentAliasId = fst (snd sel);
          orderCount = snd (snd sel) + 1
      in if fails UpdateRotationState then (Inl (DbError UpdateRotationState), s)
         else if fails TouchAlias
           then (Inl (DbError TouchAlias), write_state currentAliasId orderCount s)
           else (Inr (make_assignment e currentAlias orderCount),
                 touch_alias now currentAliasId (write_state currentAliasId orderCount s)))"

text \<open>Lines 31-77 on a loaded state: the ring query, the empty-ring fallback, the
  threshold check and the lookup.\<close>

definition select_from_ring ::
  "(db_op \<Rightarrow> bool) \<Rightarrow> env \<Rightarrow> int \<Rightarrow> rotation_row \<Rightarrow> store
     \<Rightarrow> (error + assignment) \<times> store" where
  "select_from_ring fails e now state s =
     (if fails SelectActiveAliases then (Inl (DbError SelectActiveAliases), s)
      else (case active_ring s of
              [] \<Rightarrow> (Inr (default_assignment e), s)
            | a0 # rest \<Rightarrow>
                (case rotate_if_due (a0 # rest)
                        (initial_alias_id state a0, initial_count state) of
                   Inl err \<Rightarrow> (Inl err, s)
                 | Inr st \<Rightarrow>
                     persist_selection fails e now (resolve_alias (a0 # rest) a0 st) s)))"

text \<open>The \<open>try\<close> block of \<open>getNextPaymentEmail\<close>: the value it returns, or the error
  it throws, with the store as the completed writes left it.\<close>

definition select_alias ::
  "(db_op \<Rightarrow> bool) \<Rightarrow> env \<Rightarrow> int \<Rightarrow> store \<Rightarrow> (error + assignment) \<times> store" where
  "select_alias fails e now s0 =
     (case load_state fails s0 of
        (Inl err, s1) \<Rightarrow> (Inl err, s1)
      | (Inr state, s1) \<Rightarrow> select_from_ring fails e now state s1)"

text \<open>\<open>getNextPaymentEmail\<close>: the \<open>catch\<close> block turns every error into the default.\<close>

definition getNextPaymentEmail ::
  "(db_op \<Rightarrow> bool) \<Rightarrow> env \<Rightarrow> int \<Rightarrow> store \<Rightarrow> assignment \<times> store" where
  "getNextPaymentEmail fails e now s =
     (case select_alias fails e now s of
        (Inl err, s') \<Rightarrow> (default_assignment e, s')
      | (Inr a, s') \<Rightarrow> (a, s'))"

section \<open>Payment matching (services/payment-checker.js)\<close>

record match_result =
  order :: "order_row option"
  confidence :: int
  matchType :: string
  match_count :: "nat option"

text \<open>Truthiness of a nullable integer (\<open>null\<close> and \<open>0\<close> are falsy), and \<open>null\<close>
  read as a number.\<close>

definition truthy_int :: "int option \<Rightarrow> bool" where
  "truthy_int x = (case x of None \<Rightarrow> False | Some n \<Rightarrow> n \<noteq> 0)"

definition num_or_zero :: "int option \<Rightarrow> int" where
  "num_or_zero x = (case x of None \<Rightarrow> 0 | Some n \<Rightarrow> n)"

text \<open>\<open>status IN ('pending', 'awaiting_payment')\<close>.\<close>

definition open_status :: "order_status \<Rightarrow> bool" where
  "open_status st = (st = Pending \<or> st = AwaitingPayment)"

text \<open>\<open>ORDER BY created_at DESC LIMIT 1\<close>: a row with the largest \<open>created_at\<close>, the
  first such row of the table when several share it (SQL leaves that choice open).\<close>

definition most_recent :: "order_row list \<Rightarrow> order_row option" where
  "most_recent rows =
     (case rows of
        [] \<Rightarrow> None
      | r # rs \<Rightarrow> Some (fold (\<lambda>x best. if created_at best < created_at x then x else best) rs r))"

text \<open>Lines 141-142. The tolerance is \<open>orderByRef.amount_cents * 0.01\<close>; cent amounts
  are integers, and for integers of the size of an \<open>INTEGER\<close> column the comparison of
  an integer with that double product has the same outcome as with the exact hundredth,
  which is what the model computes.\<close>

definition within_tolerance :: "order_row \<Rightarrow> int option \<Rightarrow> bool" where
  "within_tolerance orderByRef amt =
     (let tolerance = rat_of_int (amount_cents orderByRef) * (1 / 100)
      in \<bar>rat_of_int (amount_cents orderByRef) - rat_of_int (num_or_zero amt)\<bar> \<le> tolerance)"

text \<open>Each tier either throws (a rejected query), decides, or passes to the next one.
  \<open>COUNT(*)\<close> is read as a number, as SQLite returns it.\<close>

definition match_by_reference ::
  "(db_op \<Rightarrow> bool) \<Rightarrow> order_row list \<Rightarrow> payment_data \<Rightarrow> error + match_result option" where
  "match_by_reference fails os p =
     (if truthy_str (referenceCode p) then
        (if fails SelectByReference then Inl (DbError SelectByReference)
         else (case find (\<lambda>r. Some (reference_number r) = referenceCode p
                               \<and> open_status (status r)) os of
                 None \<Rightarrow> Inr None
               | Some orderByRef \<Rightarrow>
                   (if within_tolerance orderByRef (amountCents p)
                    then Inr (Some \<lparr> order = Some orderByRef, confidence = 100,
                                     matchType = ''reference_and_amount'', match_count = None \<rparr>)
                    else Inr None)))
      else Inr None)"

definition match_by_email_amount ::
  "(db_op \<Rightarrow> bool) \<Rightarrow> order_row list \<Rightarrow> payment_data \<Rightarrow> error + match_result option" where
  "match_by_email_amount fails os p =
     (if truthy_str (senderEmail p) \<and> truthy_int (amountCents p) then
        (if fails SelectByEmailAmount then Inl (DbError SelectByEmailAmount)
         else (case most_recent
                      (filter (\<lambda>r. Some (amount_cents r) = amountCents p
                                   \<and> customer_email r = senderEmail p
                                   \<and> open_status (status r)) os) of
                 None \<Rightarrow> Inr None
               | Some orderByEmailAmount \<Rightarrow>
                   Inr (Some \<lparr> order = Some orderByEmailAmount, confidence = 90,
                               matchType = ''email_and_amount'', match_count = None \<rparr>)))
      else Inr None)"

definition recent_same_amount :: "int \<Rightarrow> order_row list \<Rightarrow> payment_data \<Rightarrow> order_row list" where
  "recent_same_amount now os p =
     (let thirtyMinutesAgo = now - 30 * 60 * 1000
      in filter (\<lambda>r. Some (amount_cents r) = amountCents p
                      \<and> open_status (status r)
                      \<and> created_at r \<ge> thirtyMinutesAgo) os)"

definition match_by_amount_recent ::
  "(db_op \<Rightarrow> bool) \<Rightarrow> int \<Rightarrow> order_row list \<Rightarrow> payment_data \<Rightarrow> error + match_result option" where
  "match_by_amount_recent fails now os p =
     (if truthy_int (amountCents p) then
        (if fails SelectByAmountRecent then Inl (DbError SelectByAmountRecent)
         else (case most_recent (recent_same_amount now os p) of
                 None \<Rightarrow> Inr None
               | Some orderByAmountRecent \<Rightarrow>
                   (if fails CountByAmountRecent then Inl (DbError CountByAmountRecent)
                    else (let count = length (recent_same_amount now os p)
                          in if count = 1
                             then Inr (Some \<lparr> order = Some orderByAmountRecent, confidence = 70,
                                              matchType = ''amount_and_time'', match_count = None \<rparr>)
                             else Inr (Some \<lparr> order = None, confidence = 50,
                                              matchType = ''multiple_matches'',
                                              match_count = Some count \<rparr>)))))
      else Inr None)"

definition match_by_amount_only ::
  "(db_op \<Rightarrow> bool) \<Rightarrow> order_row list \<Rightarrow> payment_data \<Rightarrow> error + match_result option" where
  "match_by_amount_only fails os p =
     (if truthy_int (amountCents p) then
        (if fails SelectByAmountOnly then Inl (DbError SelectByAmountOnly)
         else (case most_recent
                      (filter (\<lambda>r. Some (amount_cents r) = amountCents p
                                   \<and> open_status (status r)) os) of
                 None \<Rightarrow> Inr None
               | Some orderByAmountOnly \<Rightarrow>
                   Inr (Some \<lparr> order = Some orderByAmountOnly, confidence = 50,
                               matchType = ''amount_only'', match_count = None \<rparr>)))
      else Inr None)"

text \<open>The first tier that throws or decides ends the search.\<close>

definition or_else ::
  "error + match_result option \<Rightarrow> error + match_result option \<Rightarrow> error + match_result option" where
  "or_else a b = (case a of Inl err \<Rightarrow> Inl err | Inr (Some r) \<Rightarrow> Inr (Some r) | Inr None \<Rightarrow> b)"

definition no_match :: match_result where
  "no_match = \<lparr> order = None, confidence = 0, matchType = ''no_match'', match_count = None \<rparr>"

definition matchPaymentToOrder ::
  "(db_op \<Rightarrow> bool) \<Rightarrow> int \<Rightarrow> order_row list \<Rightarrow> payment_data \<Rightarrow> error + match_result" where
  "matchPaymentToOrder fails now os p =
     (case or_else (match_by_reference fails os p)
            (or_else (match_by_email_amount fails os p)
              (or_else (match_by_amount_recent fails now os p)
                 (match_by_amount_only fails os p))) of
        Inl err \<Rightarrow> Inl err
      | Inr (Some r) \<Rightarrow> Inr r
      | Inr None \<Rightarrow> Inr no_match)"

section \<open>Disposition of a payment (processPayment)\<close>

datatype process_result =
    AutoConfirmed order_row match_result
  | NeedsReview match_result
  | Unmatched payment_data

text \<open>\<open>UPDATE orders SET status = 'paid', paid_at = ..., updated_at = ... WHERE id = ?\<close>:
  the statement carries no condition on the status.\<close>

definition mark_paid :: "int \<Rightarrow> int \<Rightarrow> int \<Rightarrow> order_row list \<Rightarrow> order_row list" where
  "mark_paid paidAt now oid os =
     map (\<lambda>r. if order_id r = oid
              then r\<lparr> status := Paid, paid_at := Some paidAt, updated_at := now \<rparr> else r) os"

definition add_event :: "payment_event \<Rightarrow> store \<Rightarrow> store" where
  "add_event ev s = s\<lparr> payment_events := payment_events s @ [ev] \<rparr>"

definition sendAdminAlert :: "admin_alert \<Rightarrow> store \<Rightarrow> store" where
  "sendAdminAlert al s = s\<lparr> admin_alerts := admin_alerts s @ [al] \<rparr>"

text \<open>Lines 256-263 and webhooks 820-827: the confirmation mail is requested only when
  mail is enabled and the order has a customer address.\<close>

definition confirm_by_mail :: "env \<Rightarrow> order_row \<Rightarrow> store \<Rightarrow> store" where
  "confirm_by_mail e ord s =
     (if EMAIL_ENABLED e = Some ''true'' \<and> truthy_str (customer_email ord)
      then s\<lparr> confirmation_mails := confirmation_mails s
                 @ [\<lparr> mail_to = customer_email ord, mail_order_number = reference_number ord \<rparr>] \<rparr>
      else s)"

text \<open>Lines 230-265.\<close>

definition auto_confirm ::
  "(db_op \<Rightarrow> bool) \<Rightarrow> env \<Rightarrow> int \<Rightarrow> payment_data \<Rightarrow> match_result \<Rightarrow> order_row \<Rightarrow> store
     \<Rightarrow> (error + process_result) \<times> store" where
  "auto_confirm fails e now p r ord s =
     (if fails UpdateOrderPaid then (Inl (DbError UpdateOrderPaid), s)
      else (let s1 = s\<lparr> orders := mark_paid now now (order_id ord) (orders s) \<rparr>
            in if fails InsertAutoMatched then (Inl (DbError InsertAutoMatched), s1)
               else (Inr (AutoConfirmed ord r),
                     confirm_by_mail e ord
                       (add_event \<lparr> event_order_id = Some (order_id ord),
                                    event_type = ''payment_auto_matched'',
                                    event_payload = MatchData (confidence r) (matchType r) p \<rparr>
                          s1))))"

text \<open>Lines 267-288.\<close>

definition flag_for_review ::
  "(db_op \<Rightarrow> bool) \<Rightarrow> payment_data \<Rightarrow> match_result \<Rightarrow> order_row \<Rightarrow> store
     \<Rightarrow> (error + process_result) \<times> store" where
  "flag_for_review fails p r ord s =
     (if fails InsertNeedsReview then (Inl (DbError InsertNeedsReview), s)
      else (Inr (NeedsReview r),
            sendAdminAlert \<lparr> alert_type = ''warning'', alert_title = ''Payment Needs Review'' \<rparr>
              (add_event \<lparr> event_order_id = Some (order_id ord),
                           event_type = ''payment_needs_review'',
                           event_payload = MatchData (confidence r) (matchType r) p \<rparr>
                 s)))"

text \<open>Lines 290-317. \<open>unmatched_payments.amount_cents\<close> is \<open>NOT NULL\<close>: the insert of
  a payment without cents is rejected by the store.\<close>

definition record_unmatched ::
  "(db_op \<Rightarrow> bool) \<Rightarrow> payment_data \<Rightarrow> match_result \<Rightarrow> store
     \<Rightarrow> (error + process_result) \<times> store" where
  "record_unmatched fails p r s =
     (if fails InsertUnmatched \<or> amountCents p = None
      then (Inl (DbError InsertUnmatched), s)
      else (Inr (Unmatched p),
            sendAdminAlert \<lparr> alert_type = ''error'', alert_title = ''Unmatched Payment'' \<rparr>
              (s\<lparr> unmatched_payments := unmatched_payments s
                     @ [\<lparr> unmatched_amount_cents = amountCents p,
                          unmatched_sender_email = senderEmail p,
                          unmatched_sender_name = senderName p,
                          unmatched_reference_code = referenceCode p,
                          reason = matchType r \<rparr>] \<rparr>)))"

text \<open>Lines 221-318: \<open>matchResult.order && confidence >= 70\<close>, then
  \<open>matchResult.order && confidence >= 50\<close>, then everything else.\<close>

definition dispose ::
  "(db_op \<Rightarrow> bool) \<Rightarrow> env \<Rightarrow> int \<Rightarrow> payment_data \<Rightarrow> match_result \<Rightarrow> store
     \<Rightarrow> (error + process_result) \<times> store" where
  "dispose fails e now p r s =
     (case order r of
        None \<Rightarrow> record_unmatched fails p r s
      | Some ord \<Rightarrow>
          (if confidence r \<ge> 70 then auto_confirm fails e now p r ord s
           else if confidence r \<ge> 50 then flag_for_review fails p r ord s
           else record_unmatched fails p r s))"

definition processPayment ::
  "(db_op \<Rightarrow> bool) \<Rightarrow> env \<Rightarrow> int \<Rightarrow> payment_data \<Rightarrow> store
     \<Rightarrow> (error + process_result) \<times> store" where
  "processPayment fails e now p s =
     (case matchPaymentToOrder fails now (orders s) p of
        Inl err \<Rightarrow> (Inl err, s)
      | Inr matchResult \<Rightarrow> dispose fails e now p matchResult s)"

section \<open>Payment-confirmed webhook (routes/webhooks.js)\<close>



text \<open>\<open>Math.round\<close> rounds to the nearest integer, a tie towards \<open>+\<infinity>\<close>;
  \<open>parseInt\<close> of a number drops its fraction digits.\<close>

definition js_round :: "rat \<Rightarrow> int" where
  "js_round x = \<lfloor>x + 1 / 2\<rfloor>"







section \<open>Expiry of pending orders (services/scheduler.js)\<close>



section \<open>Order creation (routes/orders.js)\<close>






section \<open>Notification parser: classification and amount (parseInteracEmail, lines 34-77)\<close>

text \<open>
  The regular expressions of the source are written with combinators that follow the
  backtracking matcher of JavaScript: a pattern maps the text at the current position to
  the list of remainders it can leave, in the order in which the matcher tries them
  (greedy quantifiers first take as much as they can). Characters are bytes; the flag
  \<open>i\<close> is the comparison of lower-cased ASCII letters.
\<close>

type_synonym rx = "string \<Rightarrow> string list"

definition rx_eps :: rx where
  "rx_eps s = [s]"

definition rx_char :: "(char \<Rightarrow> bool) \<Rightarrow> rx" where
  "rx_char P s = (case s of [] \<Rightarrow> [] | c # cs \<Rightarrow> if P c then [cs] else [])"

definition rx_seq :: "rx \<Rightarrow> rx \<Rightarrow> rx" where
  "rx_seq r1 r2 s = concat (map r2 (r1 s))"

definition rx_alt :: "rx \<Rightarrow> rx \<Rightarrow> rx" where
  "rx_alt r1 r2 s = r1 s @ r2 s"

definition rx_opt :: "rx \<Rightarrow> rx" where
  "rx_opt r s = r s @ [s]"

text \<open>\<open>r*\<close>: one more iteration that consumes something, then the rest, before giving
  up the iteration. Every iteration shortens the text, so its length bounds their number.\<close>

fun rx_iter :: "nat \<Rightarrow> rx \<Rightarrow> rx" where
  "rx_iter 0 r s = [s]"
| "rx_iter (Suc n) r s =
     concat (map (rx_iter n r) (filter (\<lambda>t. length t < length s) (r s))) @ [s]"

definition rx_star :: "rx \<Rightarrow> rx" where
  "rx_star r s = rx_iter (length s) r s"

definition rx_plus :: "rx \<Rightarrow> rx" where
  "rx_plus r = rx_seq r (rx_star r)"

definition is_upper :: "char \<Rightarrow> bool" where
  "is_upper c = (65 \<le> (of_char c :: nat) \<and> (of_char c :: nat) \<le> 90)"

definition to_lower :: "char \<Rightarrow> char" where
  "to_lower c = (if is_upper c then char_of (of_char c + (32::nat)) else c)"

definition rx_lit :: "string \<Rightarrow> rx" where
  "rx_lit w = foldr (\<lambda>d. rx_seq (rx_char (\<lambda>c. to_lower c = to_lower d))) w rx_eps"

definition is_digit :: "char \<Rightarrow> bool" where
  "is_digit c = (48 \<le> (of_char c :: nat) \<and> (of_char c :: nat) \<le> 57)"

text \<open>\<open>\s\<close> on bytes: space, tab, line feed, vertical tab, form feed, carriage return.\<close>

definition is_space :: "char \<Rightarrow> bool" where
  "is_space c = (c = CHR '' '' \<or> c = CHR 0x09 \<or> c = CHR 0x0A \<or> c = CHR 0x0B
                 \<or> c = CHR 0x0C \<or> c = CHR 0x0D)"

text \<open>\<open>.\<close> matches everything but a line terminator.\<close>

definition rx_dot :: rx where
  "rx_dot = rx_char (\<lambda>c. c \<noteq> CHR 0x0A \<and> c \<noteq> CHR 0x0D)"

definition rx_digit :: rx where
  "rx_digit = rx_char is_digit"

text \<open>\<open>pattern.test(text)\<close>: a match at some start position.\<close>

fun rx_test :: "rx \<Rightarrow> string \<Rightarrow> bool" where
  "rx_test r [] = (r [] \<noteq> [])"
| "rx_test r (c # cs) = (r (c # cs) \<noteq> [] \<or> rx_test r cs)"

text \<open>A pattern \<open>pre(grp)post\<close> at one position: the text of the group in the first
  successful way of matching; and \<open>text.match(pattern)[1]\<close>, from the leftmost
  position that matches.\<close>

definition rx_group_at :: "rx \<Rightarrow> rx \<Rightarrow> rx \<Rightarrow> string \<Rightarrow> string option" where
  "rx_group_at pre grp post s =
     (case concat (map (\<lambda>s1. map (\<lambda>s2. take (length s1 - length s2) s1)
                                 (filter (\<lambda>s2. post s2 \<noteq> []) (grp s1)))
                       (pre s)) of
        [] \<Rightarrow> None
      | g # _ \<Rightarrow> Some g)"

fun rx_match_group :: "rx \<Rightarrow> rx \<Rightarrow> rx \<Rightarrow> string \<Rightarrow> string option" where
  "rx_match_group pre grp post [] = rx_group_at pre grp post []"
| "rx_match_group pre grp post (c # cs) =
     (case rx_group_at pre grp post (c # cs) of
        Some g \<Rightarrow> Some g
      | None \<Rightarrow> rx_match_group pre grp post cs)"

text \<open>Lines 46-52.\<close>

definition interacPatterns :: "rx list" where
  "interacPatterns =
     [ rx_seq (rx_lit ''interac'') (rx_seq (rx_star rx_dot) (rx_lit ''e-transfer'')),
       rx_seq (rx_lit ''INTERAC'') (rx_seq (rx_star rx_dot) (rx_lit ''deposit'')),
       rx_seq (rx_lit ''e-transfer'') (rx_seq (rx_star rx_dot) (rx_lit ''deposit'')),
       rx_seq (rx_lit ''sent'') (rx_seq (rx_star rx_dot) (rx_seq (rx_lit ''money'')
         (rx_seq (rx_star rx_dot) (rx_lit ''interac'')))),
       rx_seq (rx_lit ''auto'') (rx_seq (rx_star rx_dot) (rx_seq (rx_lit ''deposit'')
         (rx_seq (rx_star rx_dot) (rx_lit ''complete'')))) ]"

text \<open>The group shared by the four amount patterns:
  \<open>(\d{1,3}(?:,\d{3})*(?:\.\d{2})?)\<close>.\<close>

definition rx_amount_group :: rx where
  "rx_amount_group =
     rx_seq (rx_seq rx_digit (rx_opt (rx_seq rx_digit (rx_opt rx_digit))))
       (rx_seq (rx_star (rx_seq (rx_char (\<lambda>c. c = CHR '','')) (rx_seq rx_digit (rx_seq rx_digit rx_digit))))
          (rx_opt (rx_seq (rx_char (\<lambda>c. c = CHR ''.'')) (rx_seq rx_digit rx_digit))))"

text \<open>Lines 63-68: each pattern as what precedes the group and what follows it.\<close>

definition amountPatterns :: "(rx \<times> rx) list" where
  "amountPatterns =
     [ (rx_seq (rx_char (\<lambda>c. c = CHR ''$'')) (rx_star (rx_char is_space)),
        rx_seq (rx_star (rx_char is_space)) (rx_opt (rx_alt (rx_lit ''CAD'') (rx_lit ''CDN'')))),
       (rx_eps,
        rx_seq (rx_star (rx_char is_space))
          (rx_alt (rx_lit ''CAD'') (rx_alt (rx_lit ''CDN'')
             (rx_seq (rx_lit ''dollar'') (rx_opt (rx_lit ''s'')))))),
       (rx_seq (rx_lit ''amount'')
          (rx_seq (rx_plus (rx_char (\<lambda>c. c = CHR '':'' \<or> is_space c)))
             (rx_seq (rx_opt (rx_char (\<lambda>c. c = CHR ''$''))) (rx_star (rx_char is_space)))),
        rx_eps),
       (rx_seq (rx_lit ''deposited'')
          (rx_seq (rx_plus (rx_char (\<lambda>c. c = CHR '':'' \<or> is_space c)))
             (rx_seq (rx_opt (rx_char (\<lambda>c. c = CHR ''$''))) (rx_star (rx_char is_space)))),
        rx_eps) ]"

text \<open>\<open>parseFloat\<close> on the texts the group can produce once the commas are removed:
  digits, then possibly a point and digits.\<close>

definition digits_value :: "string \<Rightarrow> nat" where
  "digits_value ds = foldl (\<lambda>n c. 10 * n + (of_char c - 48)) 0 ds"

definition parseFloat :: "string \<Rightarrow> rat option" where
  "parseFloat s =
     (let ip = takeWhile is_digit s; rest = dropWhile is_digit s
      in if ip = [] then None
         else (case rest of
                 [] \<Rightarrow> Some (of_nat (digits_value ip))
               | c # fs \<Rightarrow>
                   (if c = CHR ''.''
                    then (let fp = takeWhile is_digit fs
                          in Some (of_nat (digits_value ip)
                                   + of_nat (digits_value fp) / 10 ^ length fp))
                    else Some (of_nat (digits_value ip)))))"

text \<open>Lines 70-77: the first pattern that matches decides.\<close>

fun first_amount :: "(rx \<times> rx) list \<Rightarrow> string \<Rightarrow> string option" where
  "first_amount [] bodyText = None"
| "first_amount (pat # pats) bodyText =
     (case rx_match_group (fst pat) rx_amount_group (snd pat) bodyText of
        Some g \<Rightarrow> Some g
      | None \<Rightarrow> first_amount pats bodyText)"

record parsed_amount =
  parsed_isInterac :: bool
  parsed_amount :: "rat option"
  parsed_amountCents :: "int option"

text \<open>The part of \<open>parseInteracEmail\<close> that sets \<open>isInterac\<close>, \<open>amount\<close> and
  \<open>amountCents\<close>; the extractors of sender, name, reference and transaction id write
  other fields only.\<close>

definition parseInteracEmail :: "string \<Rightarrow> parsed_amount" where
  "parseInteracEmail bodyText =
     (if \<not> list_ex (\<lambda>pattern. rx_test pattern bodyText) interacPatterns
      then \<lparr> parsed_isInterac = False, parsed_amount = None, parsed_amountCents = None \<rparr>
      else (case first_amount amountPatterns bodyText of
              None \<Rightarrow> \<lparr> parsed_isInterac = True, parsed_amount = None,
                         parsed_amountCents = None \<rparr>
            | Some g \<Rightarrow>
                (let amt = parseFloat (filter (\<lambda>c. c \<noteq> CHR '','') g)
                 in \<lparr> parsed_isInterac = True, parsed_amount = amt,
                      parsed_amountCents = map_option (\<lambda>a. js_round (a * 100)) amt \<rparr>)))"

subsection \<open>Reading the persisted rotation row, and concrete inputs\<close>

definition persisted_count :: "store \<Rightarrow> int option" where
  "persisted_count s = (case rotation_state s of None \<Rightarrow> None | Some r \<Rightarrow> order_count r)"

definition persisted_alias :: "store \<Rightarrow> int option" where
  "persisted_alias s = (case rotation_state s of None \<Rightarrow> None | Some r \<Rightarrow> current_alias_id r)"

definition count_within_threshold :: "store \<Rightarrow> bool" where
  "count_within_threshold s =
     (case persisted_count s of None \<Rightarrow> True | Some n \<Rightarrow> n \<le> ORDERS_PER_ROTATION)"

definition no_failure :: "db_op \<Rightarrow> bool" where
  "no_failure op = False"

definition only_fails :: "db_op \<Rightarrow> db_op \<Rightarrow> bool" where
  "only_fails bad op = (op = bad)"

definition env0 :: env where
  "env0 = \<lparr> DEFAULT_PAYMENT_EMAIL = Some ''pay@store.test'', RECIPIENT_NAME = Some ''Store'',
            EMAIL_ENABLED = Some ''true'', WEBHOOK_SECRET = None \<rparr>"

definition alias_A :: email_alias where
  "alias_A = \<lparr> alias_row_id = 1, alias_email = ''a@store.test'', bank_name = Some ''TD'',
      bank_slug = Some ''td'', active = True, last_used_at = None \<rparr>"
definition alias_B :: email_alias where
  "alias_B = \<lparr> alias_row_id = 2, alias_email = ''b@store.test'', bank_name = Some ''RBC'',
      bank_slug = Some ''rbc'', active = True, last_used_at = None \<rparr>"
definition alias_C :: email_alias where
  "alias_C = \<lparr> alias_row_id = 3, alias_email = ''c@store.test'', bank_name = None,
      bank_slug = None, active = True, last_used_at = None \<rparr>"

definition rotation_store :: "int option \<Rightarrow> int \<Rightarrow> email_alias list \<Rightarrow> store" where
  "rotation_store cur n as =
     \<lparr> rotation_state = Some \<lparr> current_alias_id = cur, order_count = Some n \<rparr>,
       email_aliases = as, orders = [], payment_events = [], unmatched_payments = [],
       admin_alerts = [], confirmation_mails = [] \<rparr>"


definition mk_order ::
  "int \<Rightarrow> string \<Rightarrow> string option \<Rightarrow> int \<Rightarrow> order_status \<Rightarrow> int \<Rightarrow> order_row" where
  "mk_order i ref mail cents st created =
     \<lparr> order_id = i, reference_number = ref, customer_email = mail, customer_name = None,
       amount_cents = cents, status = st, payment_email = None, created_at = created,
       updated_at = created, paid_at = None \<rparr>"

definition notification :: "int \<Rightarrow> string option \<Rightarrow> string option \<Rightarrow> payment_data" where
  "notification cents mail ref =
     \<lparr> amount = Some (rat_of_int cents / 100), amountCents = Some cents, senderEmail = mail,
       senderName = None, referenceCode = ref, transactionId = None, isInterac = True \<rparr>"

definition ledger :: "order_row list \<Rightarrow> store" where
  "ledger os =
     \<lparr> rotation_state = None, email_aliases = [], orders = os, payment_events = [],
       unmatched_payments = [], admin_alerts = [], confirmation_mails = [] \<rparr>"

text \<open>The order of the specification's first scenario next to another open order whose
  amount equals the notified one.\<close>

definition order_ab12cd :: order_row where
  "order_ab12cd = mk_order 1 ''ORD-AB12CD'' (Some ''amy@mail.test'') 300000 Pending 1000"

definition order_same_amount :: order_row where
  "order_same_amount = mk_order 2 ''ORD-ZZ99'' None 299700 AwaitingPayment 2000"

text \<open>Two pending orders of 5000.00 created five minutes apart, and a time within half
  an hour of both.\<close>

definition twin_a :: order_row where
  "twin_a = mk_order 1 ''ORD-A'' None 500000 Pending 1500000"

definition twin_b :: order_row where
  "twin_b = mk_order 2 ''ORD-B'' None 500000 Pending 1800000"

definition ambiguous :: match_result where
  "ambiguous = \<lparr> order = None, confidence = 50, matchType = ''multiple_matches'',
                 match_count = Some 2 \<rparr>"




section \<open>Properties of the alias rotation\<close>

lemmas rot_defs = getNextPaymentEmail_def select_alias_def select_from_ring_def load_state_def
  persist_selection_def resolve_alias_def rotate_if_due_def initial_alias_id_def initial_count_def
  make_assignment_def write_state_def touch_alias_def active_ring_def at_index_def
  default_assignment_def or_str_def truthy_str_def ORDERS_PER_ROTATION_def

lemma resolve_alias_id:
  "resolve_alias as a0 st = (al, cid, n) \<Longrightarrow> alias_row_id al = cid \<and> (n = snd st \<or> n = 0)"
  by (auto simp: resolve_alias_def Let_def find_Some_iff split: option.splits)

lemma rotate_if_due_count:
  "rotate_if_due as st = Inr (cid, n) \<Longrightarrow> n < ORDERS_PER_ROTATION"
  by (auto simp: rotate_if_due_def Let_def ORDERS_PER_ROTATION_def split: option.splits if_splits)

lemma persist_selection_Inr:
  assumes "persist_selection fails e now (al, cid, n) s = (Inr a, s')"
    and "rotation_state s = Some st"
  shows "rotation_state s' = Some (st\<lparr> current_alias_id := Some cid, order_count := Some (n + 1) \<rparr>)
         \<and> a = make_assignment e al (n + 1)"
  using assms
  by (auto simp: persist_selection_def Let_def write_state_def touch_alias_def split: if_splits)

lemma load_state_Inr:
  "load_state fails s = (Inr st, s1) \<Longrightarrow>
     rotation_state s1 = Some st \<and> email_aliases s1 = email_aliases s"
  by (auto simp: load_state_def split: if_splits option.splits)

lemma select_alias_count:
  assumes "select_alias fails e now s = (Inr a, s')" and "active_ring s \<noteq> []"
  shows "\<exists>r n. rotation_state s' = Some r \<and> order_count r = Some n \<and> n \<le> ORDERS_PER_ROTATION
           \<and> current_alias_id r = alias_id a
           \<and> orders_until_rotation a = Some (ORDERS_PER_ROTATION - n)"
proof -
  obtain st s1 where ld: "load_state fails s = (Inr st, s1)"
    and sel: "select_from_ring fails e now st s1 = (Inr a, s')"
    using assms(1)
    by (auto simp: select_alias_def split: prod.splits sum.splits)
  from load_state_Inr [OF ld] have rs: "rotation_state s1 = Some st"
    and ea: "email_aliases s1 = email_aliases s" by simp_all
  from ea assms(2) obtain a0 rest where ring: "active_ring s1 = a0 # rest"
    by (cases "active_ring s1") (auto simp: active_ring_def)
  from sel ring obtain rot where
    rot: "rotate_if_due (a0 # rest) (initial_alias_id st a0, initial_count st) = Inr rot"
    and per: "persist_selection fails e now (resolve_alias (a0 # rest) a0 rot) s1 = (Inr a, s')"
    by (auto simp: select_from_ring_def split: if_splits sum.splits)
  obtain al cid n where res: "resolve_alias (a0 # rest) a0 rot = (al, cid, n)"
    by (cases "resolve_alias (a0 # rest) a0 rot") auto
  from rot have "snd rot < ORDERS_PER_ROTATION"
    using rotate_if_due_count [of "a0 # rest" _ "fst rot" "snd rot"] by simp
  with resolve_alias_id [OF res] have n: "n < ORDERS_PER_ROTATION" and al: "alias_row_id al = cid"
    by (auto simp: ORDERS_PER_ROTATION_def)
  from persist_selection_Inr [OF per [unfolded res] rs] n al show ?thesis
    by (simp add: make_assignment_def)
qed


lemma getNext_selected:
  assumes "getNextPaymentEmail fails e now s = (a, s')" and "alias_id a \<noteq> None"
  shows "select_alias fails e now s = (Inr a, s') \<and> active_ring s \<noteq> []"
proof -
  from assms have sel: "select_alias fails e now s = (Inr a, s')"
    by (auto simp: getNextPaymentEmail_def default_assignment_def split: prod.splits sum.splits)
  have "active_ring s \<noteq> []"
  proof
    assume emp: "active_ring s = []"
    obtain st s1 where ld: "load_state fails s = (Inr st, s1)"
      and sfr: "select_from_ring fails e now st s1 = (Inr a, s')"
      using sel by (auto simp: select_alias_def split: prod.splits sum.splits)
    from load_state_Inr [OF ld] emp have "active_ring s1 = []"
      by (simp add: active_ring_def)
    with sfr have "a = default_assignment e"
      by (auto simp: select_from_ring_def split: if_splits)
    with assms(2) show False by (simp add: default_assignment_def)
  qed
  with sel show ?thesis by simp
qed

lemma threshold_invariant:
  assumes "getNextPaymentEmail fails e now s = (a, s')" and "count_within_threshold s"
  shows "count_within_threshold s'"
proof (cases "select_alias fails e now s")
  case (Pair res t)
  with assms(1) have t: "t = s'" by (auto simp: getNextPaymentEmail_def split: sum.splits)
  obtain x s1 where ld: "load_state fails s = (x, s1)" by (cases "load_state fails s") auto
  have s1: "count_within_threshold s1"
    using ld assms(2)
    by (auto simp: load_state_def count_within_threshold_def persisted_count_def
        ORDERS_PER_ROTATION_def split: if_splits option.splits)
  show ?thesis
  proof (cases x)
    case (Inl err)
    with ld Pair t s1 show ?thesis by (simp add: select_alias_def)
  next
    case (Inr st)
    with ld Pair t have sel: "select_from_ring fails e now st s1 = (res, s')"
      by (simp add: select_alias_def)
    show ?thesis
    proof (cases "fails SelectActiveAliases \<or> active_ring s1 = []")
      case True
      with sel s1 show ?thesis by (auto simp: select_from_ring_def split: if_splits)
    next
      case False
      then obtain a0 rest where ring: "active_ring s1 = a0 # rest"
        by (cases "active_ring s1") auto
      show ?thesis
      proof (cases "rotate_if_due (a0 # rest) (initial_alias_id st a0, initial_count st)")
        case (Inl err)
        with sel ring False s1 show ?thesis by (simp add: select_from_ring_def)
      next
        case (Inr rot)
        obtain al cid n where res: "resolve_alias (a0 # rest) a0 rot = (al, cid, n)"
          by (cases "resolve_alias (a0 # rest) a0 rot") auto
        from Inr have "snd rot < ORDERS_PER_ROTATION"
          using rotate_if_due_count [of "a0 # rest" _ "fst rot" "snd rot"] by simp
        with resolve_alias_id [OF res] have n: "n < ORDERS_PER_ROTATION"
          by (auto simp: ORDERS_PER_ROTATION_def)
        from sel ring False Inr res
        have "persist_selection fails e now (al, cid, n) s1 = (res, s')"
          by (simp add: select_from_ring_def)
        with n s1 show ?thesis
          by (auto simp: persist_selection_def Let_def write_state_def touch_alias_def
              count_within_threshold_def persisted_count_def
              split: if_splits option.splits)
      qed
    qed
  qed
qed

text \<open>
  C1 (as amended). Every call of \<open>getNextPaymentEmail\<close> that returns an alias leaves a
  persisted order count of at most \<open>ORDERS_PER_ROTATION\<close> (20), persisted together with
  the returned alias, and reports \<open>ORDERS_PER_ROTATION - count\<close> orders until rotation;
  and no call, whatever it returns, takes a persisted count from at most 20 to above 20.
  The threshold is tested before the increment, so an alias serves twenty orders: from
  \<open>{currentAlias: A, count: 19}\<close> with ring \<open>[A, B, C]\<close> the call returns A and
  persists \<open>{A, 20}\<close>; from \<open>{A, 20}\<close> it returns B and persists \<open>{B, 1}\<close>.
\<close>

theorem rotation_count_at_most_threshold:
  "(getNextPaymentEmail fails e now s = (a, s') \<and> alias_id a \<noteq> None \<longrightarrow>
      (\<exists>n. persisted_count s' = Some n \<and> n \<le> ORDERS_PER_ROTATION
         \<and> persisted_alias s' = alias_id a
         \<and> orders_until_rotation a = Some (ORDERS_PER_ROTATION - n)))
   \<and> (getNextPaymentEmail fails e now s = (a, s') \<and> count_within_threshold s \<longrightarrow>
        count_within_threshold s')
   \<and> getNextPaymentEmail no_failure env0 1000
         (rotation_store (Some 1) 19 [alias_A, alias_B, alias_C])
       = (make_assignment env0 alias_A 20,
          rotation_store (Some 1) 20 [alias_A\<lparr> last_used_at := Some 1000 \<rparr>, alias_B, alias_C])
   \<and> getNextPaymentEmail no_failure env0 1000
         (rotation_store (Some 1) 20 [alias_A, alias_B, alias_C])
       = (make_assignment env0 alias_B 1,
          rotation_store (Some 2) 1 [alias_A, alias_B\<lparr> last_used_at := Some 1000 \<rparr>, alias_C])"
proof (intro conjI impI)
  assume h: "getNextPaymentEmail fails e now s = (a, s') \<and> alias_id a \<noteq> None"
  from getNext_selected [of fails e now s a s'] h
  have "select_alias fails e now s = (Inr a, s')" and "active_ring s \<noteq> []" by simp_all
  from select_alias_count [OF this] show "\<exists>n. persisted_count s' = Some n \<and> n \<le> ORDERS_PER_ROTATION
         \<and> persisted_alias s' = alias_id a
         \<and> orders_until_rotation a = Some (ORDERS_PER_ROTATION - n)"
    by (auto simp: persisted_count_def persisted_alias_def)
next
  assume "getNextPaymentEmail fails e now s = (a, s') \<and> count_within_threshold s"
  then show "count_within_threshold s'"
    using threshold_invariant [of fails e now s a s'] by blast
next
  show "getNextPaymentEmail no_failure env0 1000
         (rotation_store (Some 1) 19 [alias_A, alias_B, alias_C])
       = (make_assignment env0 alias_A 20,
          rotation_store (Some 1) 20 [alias_A\<lparr> last_used_at := Some 1000 \<rparr>, alias_B, alias_C])"
    by (simp add: rot_defs
      no_failure_def env0_def alias_A_def alias_B_def alias_C_def rotation_store_def)
next
  show "getNextPaymentEmail no_failure env0 1000
         (rotation_store (Some 1) 20 [alias_A, alias_B, alias_C])
       = (make_assignment env0 alias_B 1,
          rotation_store (Some 2) 1 [alias_A, alias_B\<lparr> last_used_at := Some 1000 \<rparr>, alias_C])"
    by (simp add: rot_defs
      no_failure_def env0_def alias_A_def alias_B_def alias_C_def rotation_store_def)
qed

text \<open>The bound used at the call that rotates from A to B.\<close>

theorem rotation_count_at_most_threshold_witness:
  "alias_id (make_assignment env0 alias_B 1) \<noteq> None
   \<and> count_within_threshold (rotation_store (Some 1) 20 [alias_A, alias_B, alias_C])
   \<and> count_within_threshold
        (rotation_store (Some 2) 1 [alias_A, alias_B\<lparr> last_used_at := Some 1000 \<rparr>, alias_C])
   \<and> persisted_count (rotation_store (Some 2) 1 [alias_A, alias_B\<lparr> last_used_at := Some 1000 \<rparr>, alias_C]) = Some 1
   \<and> (1::int) \<le> ORDERS_PER_ROTATION"
  using rotation_count_at_most_threshold [of no_failure env0 1000
      "rotation_store (Some 1) 20 [alias_A, alias_B, alias_C]"
      "make_assignment env0 alias_B 1"
      "rotation_store (Some 2) 1 [alias_A, alias_B\<lparr> last_used_at := Some 1000 \<rparr>, alias_C]"]
  by (simp add: make_assignment_def persisted_count_def count_within_threshold_def
      rotation_store_def ORDERS_PER_ROTATION_def)

text \<open>
  C1 as stated fails: from \<open>{A, 19}\<close> the call returns A, not B, and the persisted
  count is 20, which is not below the threshold.
\<close>

theorem rotation_count_19_counterexample:
  "alias_id (fst (getNextPaymentEmail no_failure env0 1000
        (rotation_store (Some 1) 19 [alias_A, alias_B, alias_C]))) = Some (alias_row_id alias_A)
   \<and> persisted_count (snd (getNextPaymentEmail no_failure env0 1000
        (rotation_store (Some 1) 19 [alias_A, alias_B, alias_C]))) = Some 20
   \<and> \<not> (20 < ORDERS_PER_ROTATION)"
  by (simp add: rot_defs
      no_failure_def env0_def alias_A_def alias_B_def alias_C_def rotation_store_def persisted_count_def)






text \<open>
  C9 (as amended). Whenever a store call inside \<open>getNextPaymentEmail\<close> rejects, the
  function returns the default assignment instead of throwing and leaves the alias table
  as it was; the rotation row is unchanged when it existed before the call and the
  rejected call is not the final last-used stamp.
\<close>

theorem store_failure_returns_default:
  assumes "select_alias fails e now s = (Inl err, s')"
  shows "getNextPaymentEmail fails e now s = (default_assignment e, s')
     \<and> email_aliases s' = email_aliases s
     \<and> (err \<noteq> DbError TouchAlias \<and> rotation_state s \<noteq> None
          \<longrightarrow> rotation_state s' = rotation_state s)"
  using assms
  by (auto simp: getNextPaymentEmail_def select_alias_def select_from_ring_def load_state_def
      persist_selection_def Let_def write_state_def
      split: if_splits option.splits list.splits sum.splits prod.splits)

text \<open>A rejected update of the rotation row.\<close>

theorem store_failure_returns_default_witness:
  "getNextPaymentEmail (only_fails UpdateRotationState) env0 1000
       (rotation_store (Some 1) 5 [alias_A, alias_B])
     = (default_assignment env0, rotation_store (Some 1) 5 [alias_A, alias_B])"
  using store_failure_returns_default [of "only_fails UpdateRotationState" env0 1000
      "rotation_store (Some 1) 5 [alias_A, alias_B]" "DbError UpdateRotationState"
      "rotation_store (Some 1) 5 [alias_A, alias_B]"]
  by (simp add: rot_defs only_fails_def env0_def alias_A_def alias_B_def rotation_store_def)

text \<open>
  C9 as stated fails: when the last-used stamp rejects, the default is returned although
  the advanced rotation row has already been written.
\<close>

theorem store_failure_state_changed_counterexample:
  "fst (getNextPaymentEmail (only_fails TouchAlias) env0 1000
          (rotation_store (Some 1) 5 [alias_A, alias_B])) = default_assignment env0
   \<and> rotation_state (snd (getNextPaymentEmail (only_fails TouchAlias) env0 1000
          (rotation_store (Some 1) 5 [alias_A, alias_B])))
       = Some \<lparr> current_alias_id = Some 1, order_count = Some 6 \<rparr>
   \<and> rotation_state (snd (getNextPaymentEmail (only_fails TouchAlias) env0 1000
          (rotation_store (Some 1) 5 [alias_A, alias_B])))
       \<noteq> rotation_state (rotation_store (Some 1) 5 [alias_A, alias_B])"
  by (simp add: rot_defs only_fails_def env0_def alias_A_def alias_B_def rotation_store_def)


section \<open>Properties of the matching engine and of the disposition\<close>

lemma most_recent_mem: "most_recent xs = Some x \<Longrightarrow> x \<in> set xs"
proof -
  have "fold (\<lambda>x best. if created_at best < created_at x then x else best) rs r \<in> set (r # rs)" for rs r
    by (induction rs arbitrary: r) auto
  then show "most_recent xs = Some x \<Longrightarrow> x \<in> set xs"
    by (auto simp: most_recent_def split: list.splits)
qed


lemma within_tolerance_iff:
  "within_tolerance ord (Some a) \<longleftrightarrow> 100 * \<bar>amount_cents ord - a\<bar> \<le> amount_cents ord"
proof -
  have "\<bar>rat_of_int (amount_cents ord) - rat_of_int a\<bar> = rat_of_int \<bar>amount_cents ord - a\<bar>"
    by simp
  moreover have "rat_of_int k \<le> rat_of_int n * (1 / 100) \<longleftrightarrow> 100 * k \<le> n" for k n :: int
  proof -
    have "rat_of_int k \<le> rat_of_int n * (1 / 100) \<longleftrightarrow> rat_of_int k * 100 \<le> rat_of_int n"
      by (simp add: field_simps)
    also have "\<dots> \<longleftrightarrow> rat_of_int (100 * k) \<le> rat_of_int n"
      by (simp add: mult.commute)
    also have "\<dots> \<longleftrightarrow> 100 * k \<le> n"
      by (simp only: of_int_le_iff)
    finally show ?thesis .
  qed
  ultimately show ?thesis
    by (simp only: within_tolerance_def Let_def num_or_zero_def option.case)
qed

lemma find_unique:
  assumes "distinct (map f xs)" and "x \<in> set xs" and "P x" and "\<forall>y. P y \<longrightarrow> f y = f x"
  shows "find P xs = Some x"
proof -
  have "find P xs = Some x" if "distinct (map f xs)" and "x \<in> set xs" for xs
    using that
  proof (induction xs)
    case Nil
    then show ?case by simp
  next
    case (Cons y ys)
    show ?case
    proof (cases "y = x")
      case True
      then show ?thesis using assms(3) by simp
    next
      case False
      with Cons.prems have xin: "x \<in> set ys" and fy: "f y \<notin> f ` set ys" by auto
      have "\<not> P y"
      proof
        assume "P y"
        with assms(4) have "f y = f x" by blast
        with fy xin show False by blast
      qed
      moreover have "find P ys = Some x"
        using Cons.IH Cons.prems(1) xin by simp
      ultimately show ?thesis by simp
    qed
  qed
  with assms(1,2) show ?thesis by blast
qed

text \<open>
  C2. When the parsed reference token is the reference of an order of the ledger whose
  status is pending or awaiting_payment (references are unique), and the parsed amount
  differs from that order's amount by at most one hundredth of the order's amount, then
  \<open>matchPaymentToOrder\<close> returns that order with confidence 100 and match type
  \<open>reference_and_amount\<close>, whatever other orders the ledger holds.
\<close>

lemmas match_eval_defs =
  processPayment_def dispose_def record_unmatched_def flag_for_review_def auto_confirm_def
  sendAdminAlert_def add_event_def confirm_by_mail_def mark_paid_def
  matchPaymentToOrder_def or_else_def no_match_def match_by_reference_def
  match_by_email_amount_def match_by_amount_recent_def match_by_amount_only_def
  recent_same_amount_def most_recent_def within_tolerance_def num_or_zero_def
  truthy_str_def truthy_int_def open_status_def Let_def

theorem reference_match_confidence_100:
  assumes "referenceCode p = Some ref" and "ref \<noteq> []"
    and "distinct (map reference_number os)"
    and "ord \<in> set os" and "reference_number ord = ref" and "open_status (status ord)"
    and "amountCents p = Some a"
    and "100 * \<bar>amount_cents ord - a\<bar> \<le> amount_cents ord"
    and "\<not> fails SelectByReference"
  shows "matchPaymentToOrder fails now os p =
           Inr \<lparr> order = Some ord, confidence = 100,
                 matchType = ''reference_and_amount'', match_count = None \<rparr>"
proof -
  have "find (\<lambda>r. Some (reference_number r) = referenceCode p \<and> open_status (status r)) os
          = Some ord"
    using assms by (intro find_unique [where f = reference_number]) auto
  moreover have "within_tolerance ord (amountCents p)"
    using assms by (simp add: within_tolerance_iff)
  ultimately have "match_by_reference fails os p =
      Inr (Some \<lparr> order = Some ord, confidence = 100,
                  matchType = ''reference_and_amount'', match_count = None \<rparr>)"
    using assms by (simp add: match_by_reference_def truthy_str_def)
  then show ?thesis
    by (simp add: matchPaymentToOrder_def or_else_def)
qed

text \<open>The specification's scenario, with a second open order of exactly the notified amount.\<close>

theorem reference_match_confidence_100_witness:
  "matchPaymentToOrder no_failure 5000 [order_ab12cd, order_same_amount]
       (notification 299700 None (Some ''ORD-AB12CD''))
     = Inr \<lparr> order = Some order_ab12cd, confidence = 100,
             matchType = ''reference_and_amount'', match_count = None \<rparr>"
  using reference_match_confidence_100 [of "notification 299700 None (Some ''ORD-AB12CD'')"
      "''ORD-AB12CD''" "[order_ab12cd, order_same_amount]" order_ab12cd 299700 no_failure 5000]
  by (simp add: notification_def order_ab12cd_def order_same_amount_def mk_order_def
      open_status_def no_failure_def)




lemma or_else_Some:
  "or_else a b = Inr (Some r) \<Longrightarrow> a = Inr (Some r) \<or> (a = Inr None \<and> b = Inr (Some r))"
  by (auto simp: or_else_def split: sum.splits option.splits)

lemma match_decision_cases:
  assumes "matchPaymentToOrder fails now os p = Inr r"
  shows "match_by_reference fails os p = Inr (Some r)
       \<or> match_by_email_amount fails os p = Inr (Some r)
       \<or> match_by_amount_recent fails now os p = Inr (Some r)
       \<or> match_by_amount_only fails os p = Inr (Some r)
       \<or> r = no_match"
  using assms
  by (auto simp: matchPaymentToOrder_def split: sum.splits option.splits dest!: or_else_Some)

lemma tier1_order:
  "match_by_reference fails os p = Inr (Some r) \<Longrightarrow>
     \<exists>ord. order r = Some ord \<and> ord \<in> set os \<and> open_status (status ord) \<and> confidence r = 100"
  by (auto simp: match_by_reference_def find_Some_iff in_set_conv_nth
      split: if_splits option.splits)

lemma tier2_order:
  "match_by_email_amount fails os p = Inr (Some r) \<Longrightarrow>
     \<exists>ord. order r = Some ord \<and> ord \<in> set os \<and> open_status (status ord) \<and> confidence r = 90"
  by (auto simp: match_by_email_amount_def split: if_splits option.splits dest!: most_recent_mem)

lemma tier3_order:
  "match_by_amount_recent fails now os p = Inr (Some r) \<Longrightarrow>
     (\<exists>ord. order r = Some ord \<and> ord \<in> set os \<and> open_status (status ord) \<and> confidence r = 70)
     \<or> (order r = None \<and> confidence r = 50 \<and> matchType r = ''multiple_matches''
          \<and> truthy_int (amountCents p))"
  by (auto simp: match_by_amount_recent_def recent_same_amount_def Let_def
      split: if_splits option.splits dest!: most_recent_mem)

lemma tier4_order:
  "match_by_amount_only fails os p = Inr (Some r) \<Longrightarrow>
     \<exists>ord. order r = Some ord \<and> ord \<in> set os \<and> open_status (status ord) \<and> confidence r = 50
        \<and> matchType r = ''amount_only''"
  by (auto simp: match_by_amount_only_def split: if_splits option.splits dest!: most_recent_mem)


lemma review_band_cases:
  assumes "matchPaymentToOrder fails now os p = Inr r"
    and "50 \<le> confidence r" and "confidence r < 70"
  shows "(\<exists>ord. order r = Some ord)
       \<or> (order r = None \<and> matchType r = ''multiple_matches'' \<and> amountCents p \<noteq> None)"
  using match_decision_cases [OF assms(1)] assms(2,3)
  by (auto simp: no_match_def truthy_int_def
      dest!: tier1_order tier2_order tier3_order tier4_order split: option.splits)

text \<open>
  C4 (as amended). When the match result has a confidence of at least 50 and below 70,
  \<open>processPayment\<close> leaves every order as it was. If the result carries an order (the
  amount-only tier), it appends a \<open>payment_needs_review\<close> event for that order and
  raises the warning alert, and records nothing as unmatched. If it carries no order
  (the ambiguous \<open>multiple_matches\<close> result), no event is appended: the payment is
  recorded in \<open>unmatched_payments\<close> with reason \<open>multiple_matches\<close> and the error alert
  is raised. (The inserts are assumed not to be rejected.)
\<close>

theorem review_band_disposition:
  assumes "matchPaymentToOrder fails now (orders s) p = Inr r"
    and "50 \<le> confidence r" and "confidence r < 70"
    and "\<not> fails InsertNeedsReview" and "\<not> fails InsertUnmatched"
    and "processPayment fails e now p s = (res, s')"
  shows "orders s' = orders s
     \<and> (\<forall>ord. order r = Some ord \<longrightarrow>
            res = Inr (NeedsReview r)
          \<and> payment_events s' = payment_events s
               @ [\<lparr> event_order_id = Some (order_id ord), event_type = ''payment_needs_review'',
                     event_payload = MatchData (confidence r) (matchType r) p \<rparr>]
          \<and> admin_alerts s' = admin_alerts s
               @ [\<lparr> alert_type = ''warning'', alert_title = ''Payment Needs Review'' \<rparr>]
          \<and> unmatched_payments s' = unmatched_payments s)
     \<and> (order r = None \<longrightarrow>
            matchType r = ''multiple_matches''
          \<and> res = Inr (Unmatched p)
          \<and> payment_events s' = payment_events s
          \<and> admin_alerts s' = admin_alerts s
               @ [\<lparr> alert_type = ''error'', alert_title = ''Unmatched Payment'' \<rparr>]
          \<and> unmatched_payments s' = unmatched_payments s
               @ [\<lparr> unmatched_amount_cents = amountCents p,
                     unmatched_sender_email = senderEmail p,
                     unmatched_sender_name = senderName p,
                     unmatched_reference_code = referenceCode p,
                     reason = ''multiple_matches'' \<rparr>])"
proof -
  from assms(1,6) have d: "dispose fails e now p r s = (res, s')"
    by (simp add: processPayment_def)
  from review_band_cases [OF assms(1-3)] show ?thesis
  proof
    assume "\<exists>ord. order r = Some ord"
    then obtain ord where "order r = Some ord" ..
    with d assms(2-5) show ?thesis
      by (auto simp: dispose_def flag_for_review_def sendAdminAlert_def add_event_def)
  next
    assume "order r = None \<and> matchType r = ''multiple_matches'' \<and> amountCents p \<noteq> None"
    with d assms(5) show ?thesis
      by (auto simp: dispose_def record_unmatched_def sendAdminAlert_def)
  qed
qed


text \<open>The ambiguous payment of the two twin orders.\<close>

theorem review_band_disposition_witness:
  "orders (snd (processPayment no_failure env0 2000000 (notification 500000 None None)
                  (ledger [twin_a, twin_b]))) = [twin_a, twin_b]
   \<and> fst (processPayment no_failure env0 2000000 (notification 500000 None None)
                  (ledger [twin_a, twin_b])) = Inr (Unmatched (notification 500000 None None))
   \<and> map reason (unmatched_payments
          (snd (processPayment no_failure env0 2000000 (notification 500000 None None)
                  (ledger [twin_a, twin_b])))) = [''multiple_matches'']"
  using review_band_disposition [of no_failure 2000000 "ledger [twin_a, twin_b]"
      "notification 500000 None None" ambiguous env0
      "fst (processPayment no_failure env0 2000000 (notification 500000 None None)
                  (ledger [twin_a, twin_b]))"
      "snd (processPayment no_failure env0 2000000 (notification 500000 None None)
                  (ledger [twin_a, twin_b]))"]
  by (simp add: match_eval_defs notification_def ledger_def mk_order_def twin_a_def twin_b_def ambiguous_def
      no_failure_def env0_def)

text \<open>
  C4 as stated fails for the ambiguous result: no needs-review event is appended, the
  payment is recorded as unmatched.
\<close>

theorem ambiguous_recorded_unmatched_counterexample:
  "matchPaymentToOrder no_failure 2000000 [twin_a, twin_b] (notification 500000 None None)
     = Inr ambiguous
   \<and> confidence ambiguous = 50
   \<and> payment_events (snd (processPayment no_failure env0 2000000
        (notification 500000 None None) (ledger [twin_a, twin_b]))) = []
   \<and> unmatched_payments (snd (processPayment no_failure env0 2000000
        (notification 500000 None None) (ledger [twin_a, twin_b])))
       = [\<lparr> unmatched_amount_cents = Some 500000, unmatched_sender_email = None,
             unmatched_sender_name = None, unmatched_reference_code = None,
             reason = ''multiple_matches'' \<rparr>]"
  by (simp add: match_eval_defs notification_def ledger_def mk_order_def twin_a_def twin_b_def ambiguous_def
      no_failure_def env0_def)











section \<open>Properties of the expiry and of order creation\<close>











section \<open>The amount extracted by the parser\<close>

text \<open>The bound on the iterations of a starred pattern is never the reason for stopping:
  any larger bound gives the same remainders.\<close>

lemma rx_iter_enough: "length s \<le> n \<Longrightarrow> rx_iter n r s = rx_iter (length s) r s"
proof (induction n arbitrary: s rule: less_induct)
  case (less n)
  show ?case
  proof (cases n)
    case 0
    with less.prems show ?thesis by simp
  next
    case (Suc m)
    show ?thesis
    proof (cases "length s")
      case 0
      then show ?thesis using Suc by simp
    next
      case (Suc k)
      have km: "k \<le> m" using less.prems \<open>n = Suc m\<close> Suc by simp
      have "rx_iter m r t = rx_iter k r t" if "length t < length s" for t
      proof -
        from that Suc have tk: "length t \<le> k" by simp
        with km have tm: "length t \<le> m" by simp
        have "rx_iter m r t = rx_iter (length t) r t"
          using less.IH [of m t] tm \<open>n = Suc m\<close> by simp
        moreover have "rx_iter k r t = rx_iter (length t) r t"
          using less.IH [of k t] tk km \<open>n = Suc m\<close> by simp
        ultimately show ?thesis by simp
      qed
      then have "map (rx_iter m r) (filter (\<lambda>t. length t < length s) (r s))
               = map (rx_iter k r) (filter (\<lambda>t. length t < length s) (r s))"
        by (intro map_cong) auto
      then have "rx_iter (Suc m) r s = rx_iter (Suc k) r s"
        by (simp only: rx_iter.simps)
      then show ?thesis using Suc \<open>n = Suc m\<close> by simp
    qed
  qed
qed

text \<open>
  C6 (the code at inputs of the claimed formats). The claim asks that a transfer
  notification containing \<open>amount: $1234.56\<close> yields 123456 cents. The amount group
  \<open>\d{1,3}(?:,\d{3})*(?:\.\d{2})?\<close> takes at most three digits unless commas follow, so
  for an amount of four or more digits written without separators the parser returns
  something else: \<open>amount: $1234.56\<close> and \<open>deposited: $1234.56\<close> give 123.00, that is
  12300 cents, and \<open>1234.56 CAD\<close> gives 234.56, that is 23456 cents. With separators,
  \<open>$1,234.56\<close> gives 123456 cents.
\<close>

theorem amount_without_separators_is_cut:
  "parseInteracEmail ''INTERAC e-Transfer amount: $1234.56''
     = \<lparr> parsed_isInterac = True, parsed_amount = Some 123, parsed_amountCents = Some 12300 \<rparr>
   \<and> parsed_amountCents (parseInteracEmail ''Interac e-Transfer deposited: $1234.56'')
       = Some 12300
   \<and> parsed_amountCents (parseInteracEmail ''Interac e-Transfer of 1234.56 CAD'')
       = Some 23456
   \<and> parsed_amountCents (parseInteracEmail ''INTERAC e-Transfer: $1,234.56 received'')
       = Some 123456"
  by code_simp

end
